theory Spec2Isabelle
  imports Main "HOL-Library.Word"
begin

section \<open>The Uniswap V2 connector (gateway/src/connectors/uniswap/uniswap.ts)\<close>

text \<open>
  A shallow embedding of the class \<^verbatim>\<open>Uniswap\<close>. The instance's fields are a record that
  every method takes and returns; the logger, the nonce manager and the chain connection
  are a second record, the world, holding a trace of the calls made to them. What the
  class reads from its collaborators (the Ethereum chain object, the configuration, the
  Uniswap SDK, the router and factory contracts, the arithmetic of the runtime) is a
  record of functions, the environment. A thrown exception or a rejected promise is the
  \<open>Inl\<close> of a sum; the fields written before the throw stay written, as in JavaScript,
  so every method returns its outcome together with the instance and the world.
\<close>

subsection \<open>Data\<close>

type_synonym address = string

text \<open>
  A JavaScript number is a double, kept as its 64 bits. Its arithmetic is the runtime's
  and is read from the environment; \<^verbatim>\<open>1e9\<close> is the double 1000000000.
\<close>

datatype number = Double "64 word"

definition number_1e9 :: number where
  "number_1e9 = Double 0x41CDCD6500000000"

text \<open>\<^verbatim>\<open>TokenInfo\<close>, the entries of the chain object's token list.\<close>

record tokenInfo =
  ti_chainId :: nat
  ti_address :: address
  ti_name :: string
  ti_symbol :: string
  ti_decimals :: nat

text \<open>
  The SDK's \<^verbatim>\<open>Token\<close>: \<^verbatim>\<open>symbol\<close> and \<^verbatim>\<open>name\<close> are optional there
  (\<^verbatim>\<open>symbol?: string\<close>), \<open>None\<close> is \<^verbatim>\<open>undefined\<close>. The constructor
  \<^verbatim>\<open>new Token\<close> belongs to the SDK and is read from the environment: it validates its
  arguments and can throw.
\<close>

record token =
  chainId :: nat
  address :: address
  decimals :: nat
  symbol :: "string option"
  name :: "string option"

text \<open>The SDK's \<^verbatim>\<open>Pair\<close>, \<^verbatim>\<open>TokenAmount\<close>, \<^verbatim>\<open>Route\<close> and \<^verbatim>\<open>Trade\<close>, as far as this
  file reads them. A route's \<^verbatim>\<open>path\<close> is optional because \<^verbatim>\<open>getTradeRoute\<close> tests
  \<^verbatim>\<open>'path' in trade.route\<close>.\<close>

record pair =
  tokenA :: token
  tokenB :: token
  reserveA :: int
  reserveB :: int

record tokenAmount =
  ta_token :: token
  ta_raw :: int

record route =
  route_pairs :: "pair list"
  route_path :: "token list option"

datatype tradeType = EXACT_INPUT | EXACT_OUTPUT

record trade =
  trade_route :: route
  trade_tradeType :: tradeType
  inputAmount :: tokenAmount
  outputAmount :: tokenAmount

text \<open>The SDK's \<^verbatim>\<open>Percent\<close>, built from the two groups of the match.\<close>

record percent =
  numerator :: string
  denominator :: string

text \<open>The SDK's \<^verbatim>\<open>SwapParameters\<close>; an argument is a string or an array of strings.\<close>

datatype swap_arg = Str string | Strs "string list"

record swapParameters =
  methodName :: string
  args :: "swap_arg list"
  sp_value :: string

text \<open>
  The overrides object that \<^verbatim>\<open>executeTrade\<close> passes as the last argument of the
  contract call. A key that the object literal does not have, or has with the value
  \<^verbatim>\<open>undefined\<close>, is \<open>None\<close>. \<^verbatim>\<open>gasPrice\<close> and \<^verbatim>\<open>gasLimit\<close> are the strings that
  \<^verbatim>\<open>toFixed(0)\<close> returns.
\<close>

record overrides =
  ov_gasPrice :: "string option"
  ov_gasLimit :: string
  ov_value :: string
  ov_nonce :: nat
  ov_maxFeePerGas :: "int option"
  ov_maxPriorityFeePerGas :: "int option"

text \<open>\<^verbatim>\<open>contract[result.methodName](...result.args, overrides)\<close> on
  \<^verbatim>\<open>new Contract(uniswapRouter, abi, wallet)\<close>.\<close>

record request =
  req_contract :: address
  req_signer :: address
  req_methodName :: string
  req_args :: "swap_arg list"
  req_overrides :: overrides

record transaction =
  tx_hash :: string
  tx_nonce :: nat

record wallet =
  wallet_address :: address

record expectedTrade =
  et_trade :: trade
  expectedAmount :: tokenAmount

subsection \<open>Errors, effects, collaborators\<close>

text \<open>
  \<open>InitializationError\<close>, \<open>UniswapishPriceError\<close> and \<open>Error\<close> are the errors this
  file throws. \<open>InvariantError\<close> is a failed invariant of the SDK. \<open>Rejected\<close> is the
  rejection of an awaited call to the chain (the factory's \<^verbatim>\<open>getPair\<close>,
  \<^verbatim>\<open>Fetcher.fetchPairData\<close>, the router call).
\<close>

datatype error =
    InitializationError string nat
  | UniswapishPriceError string
  | Error string
  | InvariantError
  | Rejected string

datatype event =
    LogInfo string
  | LogWarning string
  | LogTx transaction
  | GetNonce address
  | Submit request
  | CommitNonce address nat

record world =
  nonces :: "address \<Rightarrow> nat"
  trace :: "event list"

definition emit :: "event \<Rightarrow> world \<Rightarrow> world" where
  "emit e w = w\<lparr>trace := trace w @ [e]\<rparr>"

text \<open>
  What one instance reads from outside this file: the chain object \<^verbatim>\<open>this.ethereum\<close>,
  the constants of \<^verbatim>\<open>error-handler\<close>, \<^verbatim>\<open>ethereum-base\<close> and
  \<^verbatim>\<open>config-manager-v2\<close>, \<^verbatim>\<open>UniswapConfig.config\<close>, the factory and router
  contracts, the constructors and functions of the Uniswap SDK, and the runtime's
  multiplication and \<^verbatim>\<open>toFixed\<close> on numbers. A call that can throw or reject answers
  with a sum.
\<close>

record env =
  ethereum_ready :: bool
  storedTokenList :: "tokenInfo list"
  getTokenForSymbol :: "string \<Rightarrow> tokenInfo option"
  zeroAddress :: address
  SERVICE_UNITIALIZED_ERROR_CODE :: nat
  SERVICE_UNITIALIZED_ERROR_MESSAGE :: "string \<Rightarrow> string"
  allowedSlippage :: "nat \<Rightarrow> string"
  percentRegexp_match :: "string \<Rightarrow> (string \<times> string) option"
  getPair :: "address \<Rightarrow> address \<Rightarrow> address \<Rightarrow> error + address"
  new_Token :: "nat \<Rightarrow> address \<Rightarrow> nat \<Rightarrow> string \<Rightarrow> string \<Rightarrow> error + token"
  new_Percent :: "string \<Rightarrow> string \<Rightarrow> error + percent"
  fetchPairData :: "token \<Rightarrow> token \<Rightarrow> error + pair"
  bestTradeExactIn :: "pair list \<Rightarrow> tokenAmount \<Rightarrow> token \<Rightarrow> nat \<Rightarrow> error + trade list"
  bestTradeExactOut :: "pair list \<Rightarrow> token \<Rightarrow> tokenAmount \<Rightarrow> nat \<Rightarrow> error + trade list"
  minimumAmountOut :: "trade \<Rightarrow> percent \<Rightarrow> error + tokenAmount"
  maximumAmountIn :: "trade \<Rightarrow> percent \<Rightarrow> error + tokenAmount"
  executionPrice_toFixed :: "trade \<Rightarrow> nat \<Rightarrow> error + string"
  executionPrice_invert_toFixed :: "trade \<Rightarrow> nat \<Rightarrow> error + string"
  token_toString :: "token \<Rightarrow> string"
  swapCallParameters :: "trade \<Rightarrow> nat \<Rightarrow> address \<Rightarrow> percent \<Rightarrow> error + swapParameters"
  contract_call :: "request \<Rightarrow> error + transaction"
  number_times :: "number \<Rightarrow> number \<Rightarrow> number"
  number_toFixed :: "number \<Rightarrow> nat \<Rightarrow> string"

text \<open>
  The fields of a \<^verbatim>\<open>Uniswap\<close> object. \<^verbatim>\<open>ethereum\<close> is the network whose chain
  object the constructor fetched; the two ABIs are constants of the module and are left
  out. A field \<^verbatim>\<open>_x\<close> of the class is \<open>u_x\<close>.
\<close>

record uniswap =
  ethereum :: string
  u_chain :: string
  u_router :: address
  u_factoryAddress :: address
  u_gasLimit :: nat
  u_ttl :: nat
  u_chainId :: nat
  tokenList :: "address \<rightharpoonup> token"
  u_ready :: bool
  u_poolStrings :: "string list"
  u_pools :: "pair list"
  u_maxHops :: nat

type_synonym 'a outcome = "(error + 'a) \<times> uniswap \<times> world"

subsection \<open>Strings of JavaScript\<close>

text \<open>\<^verbatim>\<open>s.split(sep)\<close> for a separator of one character: never the empty array.\<close>

fun js_split :: "char \<Rightarrow> string \<Rightarrow> string list" where
  "js_split sep [] = [[]]"
| "js_split sep (c # cs) =
     (if c = sep then [] # js_split sep cs
      else (case js_split sep cs of
              [] \<Rightarrow> [[c]]
            | piece # pieces \<Rightarrow> (c # piece) # pieces))"

text \<open>An array of strings in a template literal: its elements joined by commas.\<close>

fun array_toString :: "string list \<Rightarrow> string" where
  "array_toString [] = []"
| "array_toString [s] = s"
| "array_toString (s # t # ss) = s @ '','' @ array_toString (t # ss)"

text \<open>An optional string in a template literal.\<close>

definition template_opt :: "string option \<Rightarrow> string" where
  "template_opt s = (case s of None \<Rightarrow> ''undefined'' | Some x \<Rightarrow> x)"

subsection \<open>initDirectPools and getPool\<close>

definition getPool :: "env \<Rightarrow> token \<Rightarrow> token \<Rightarrow> address \<Rightarrow> error + address option" where
  "getPool env tA tB factory =
     (case getPair env factory (address tA) (address tB) of
        Inl e \<Rightarrow> Inl e
      | Inr pairAddress \<Rightarrow>
          Inr (if pairAddress \<noteq> zeroAddress env then Some pairAddress else None))"

text \<open>\<^verbatim>\<open>if (pool)\<close> on a \<^verbatim>\<open>string | null\<close>: null and the empty string are falsy.\<close>

definition truthy :: "address option \<Rightarrow> bool" where
  "truthy pool = (case pool of None \<Rightarrow> False | Some s \<Rightarrow> s \<noteq> [])"

text \<open>
  The body of the loop of \<^verbatim>\<open>initDirectPools\<close>, for the entry \<open>pr\<close>. The two tokens
  are constructed, base first, before the factory is asked; each constructor and each
  awaited read can end the method.
\<close>

definition initDirectPools_entry :: "env \<Rightarrow> string \<Rightarrow> uniswap \<Rightarrow> world \<Rightarrow> unit outcome" where
  "initDirectPools_entry env pr u w =
     (let splitPair = js_split CHR ''-'' pr in
      if length splitPair = 2 then
        (let base = splitPair ! 0;
             quote = splitPair ! 1;
             baseTokenInfo = getTokenForSymbol env base;
             quoteTokenInfo = getTokenForSymbol env quote
         in case baseTokenInfo of
              None \<Rightarrow>
                (Inr (), u,
                 emit (LogWarning
                         (''There is an unrecognized base token in your Uniswap V2 config for '' @
                          u_chain u @ '': '' @ base @ ''.'')) w)
            | Some bi \<Rightarrow>
               (case quoteTokenInfo of
                  None \<Rightarrow>
                    (Inr (), u,
                     emit (LogWarning
                             (''There is an unrecognized quote token in your Uniswap V2 config for '' @
                              u_chain u @ '': '' @ quote @ ''.'')) w)
                | Some qi \<Rightarrow>
                   (case new_Token env (u_chainId u) (ti_address bi) (ti_decimals bi)
                           (ti_symbol bi) (ti_name bi) of
                      Inl e \<Rightarrow> (Inl e, u, w)
                    | Inr baseToken \<Rightarrow>
                       (case new_Token env (u_chainId u) (ti_address qi) (ti_decimals qi)
                               (ti_symbol qi) (ti_name qi) of
                          Inl e \<Rightarrow> (Inl e, u, w)
                        | Inr quoteToken \<Rightarrow>
                           (case getPool env baseToken quoteToken (u_factoryAddress u) of
                              Inl e \<Rightarrow> (Inl e, u, w)
                            | Inr pool \<Rightarrow>
                                if truthy pool then
                                  (case fetchPairData env baseToken quoteToken of
                                     Inl e \<Rightarrow> (Inl e, u, w)
                                   | Inr p \<Rightarrow> (Inr (), u\<lparr>u_pools := u_pools u @ [p]\<rparr>, w))
                                else
                                  (Inr (), u,
                                   emit (LogWarning
                                           (''There is not a direct pool pair for '' @
                                            array_toString splitPair @ '' on '' @ u_chain u @
                                            '' for Uniswap V2.'')) w))))))
      else
        (Inr (), u,
         emit (LogWarning
                 (''The pool pair '' @ pr @ '' in your Uniswap V2 config for '' @ u_chain u @
                  '' is malformed. It should be a string in the format '' @ [CHR 0x27] @
                  ''BASE-QUOTE'' @ [CHR 0x27] @ ''.'')) w))"

fun initDirectPools_loop :: "env \<Rightarrow> string list \<Rightarrow> uniswap \<Rightarrow> world \<Rightarrow> unit outcome" where
  "initDirectPools_loop env [] u w = (Inr (), u, w)"
| "initDirectPools_loop env (pr # prs) u w =
     (case initDirectPools_entry env pr u w of
        (Inl e, u', w') \<Rightarrow> (Inl e, u', w')
      | (Inr _, u', w') \<Rightarrow> initDirectPools_loop env prs u' w')"

definition initDirectPools :: "env \<Rightarrow> uniswap \<Rightarrow> world \<Rightarrow> unit outcome" where
  "initDirectPools env u w = initDirectPools_loop env (u_poolStrings u) u w"

subsection \<open>init\<close>

text \<open>
  The loop over \<^verbatim>\<open>storedTokenList\<close>: the token list as far as it was written, and the
  error of the constructor that threw, if one did.
\<close>

fun init_tokens ::
  "env \<Rightarrow> nat \<Rightarrow> tokenInfo list \<Rightarrow> (address \<rightharpoonup> token) \<Rightarrow> (error + unit) \<times> (address \<rightharpoonup> token)" where
  "init_tokens env cid [] tlist = (Inr (), tlist)"
| "init_tokens env cid (t # ts) tlist =
     (case new_Token env cid (ti_address t) (ti_decimals t) (ti_symbol t) (ti_name t) of
        Inl e \<Rightarrow> (Inl e, tlist)
      | Inr tok \<Rightarrow> init_tokens env cid ts (tlist(ti_address t \<mapsto> tok)))"

definition init :: "env \<Rightarrow> uniswap \<Rightarrow> world \<Rightarrow> unit outcome" where
  "init env u w =
     (if u_chain u = ''ethereum'' \<and> \<not> ethereum_ready env then
        (Inl (InitializationError (SERVICE_UNITIALIZED_ERROR_MESSAGE env ''ETH'')
                (SERVICE_UNITIALIZED_ERROR_CODE env)), u, w)
      else
        (case init_tokens env (u_chainId u) (storedTokenList env) (tokenList u) of
           (Inl e, tlist) \<Rightarrow> (Inl e, u\<lparr>tokenList := tlist\<rparr>, w)
         | (Inr _, tlist) \<Rightarrow>
            (case initDirectPools env (u\<lparr>tokenList := tlist\<rparr>) w of
               (Inl e, u2, w2) \<Rightarrow> (Inl e, u2, w2)
             | (Inr _, u2, w2) \<Rightarrow> (Inr (), u2\<lparr>u_ready := True\<rparr>, w2))))"

subsection \<open>getSlippagePercentage, estimateSellTrade, estimateBuyTrade\<close>

definition getSlippagePercentage :: "env \<Rightarrow> error + percent" where
  "getSlippagePercentage env =
     (case percentRegexp_match env (allowedSlippage env 2) of
        Some (n, d) \<Rightarrow> new_Percent env n d
      | None \<Rightarrow>
          Inl (Error ''Encountered a malformed percent string in the config for ALLOWED_SLIPPAGE.''))"

text \<open>
  \<^verbatim>\<open>new TokenAmount(token, amount.toString())\<close>: the SDK's constructor checks that the
  raw amount is a uint256 and throws its invariant otherwise.
\<close>

definition new_TokenAmount :: "token \<Rightarrow> int \<Rightarrow> error + tokenAmount" where
  "new_TokenAmount tok amount =
     (if 0 \<le> amount \<and> amount < 2 ^ 256 then Inr \<lparr>ta_token = tok, ta_raw = amount\<rparr>
      else Inl InvariantError)"

text \<open>
  \<^verbatim>\<open>this._pools.concat([pair])\<close> is a new array, \<open>u_pools u @ [pair]\<close>, handed to the
  SDK; no branch assigns a field of the instance, so each returns \<open>u\<close> itself.
\<close>

definition estimateSellTrade ::
  "env \<Rightarrow> uniswap \<Rightarrow> world \<Rightarrow> token \<Rightarrow> token \<Rightarrow> int \<Rightarrow> expectedTrade outcome" where
  "estimateSellTrade env u w baseToken quoteToken amount =
     (case new_TokenAmount baseToken amount of
        Inl e \<Rightarrow> (Inl e, u, w)
      | Inr nativeTokenAmount \<Rightarrow>
         (let w1 = emit (LogInfo (''Fetching pair data for '' @ address baseToken @ ''-'' @
                                  address quoteToken @ ''.'')) w
          in case fetchPairData env baseToken quoteToken of
               Inl e \<Rightarrow> (Inl e, u, w1)
             | Inr pr \<Rightarrow>
                (case bestTradeExactIn env (u_pools u @ [pr]) nativeTokenAmount quoteToken
                        (u_maxHops u) of
                   Inl e \<Rightarrow> (Inl e, u, w1)
                 | Inr trades \<Rightarrow>
                    (case trades of
                       [] \<Rightarrow>
                         (Inl (UniswapishPriceError
                                 (''priceSwapIn: no trade pair found for '' @
                                  token_toString env baseToken @ '' to '' @
                                  token_toString env quoteToken @ ''.'')), u, w1)
                     | best # _ \<Rightarrow>
                        (case executionPrice_toFixed env best 6 of
                           Inl e \<Rightarrow> (Inl e, u, w1)
                         | Inr price \<Rightarrow>
                            (let w2 = emit (LogInfo (''Best trade for '' @ address baseToken @
                                                     ''-'' @ address quoteToken @ '': '' @ price @
                                                     template_opt (name baseToken) @ ''.'')) w1
                             in case getSlippagePercentage env of
                                  Inl e \<Rightarrow> (Inl e, u, w2)
                                | Inr slippage \<Rightarrow>
                                   (case minimumAmountOut env best slippage of
                                      Inl e \<Rightarrow> (Inl e, u, w2)
                                    | Inr amountOut \<Rightarrow>
                                        (Inr \<lparr>et_trade = best, expectedAmount = amountOut\<rparr>,
                                         u, w2))))))))"

definition estimateBuyTrade ::
  "env \<Rightarrow> uniswap \<Rightarrow> world \<Rightarrow> token \<Rightarrow> token \<Rightarrow> int \<Rightarrow> expectedTrade outcome" where
  "estimateBuyTrade env u w quoteToken baseToken amount =
     (case new_TokenAmount baseToken amount of
        Inl e \<Rightarrow> (Inl e, u, w)
      | Inr nativeTokenAmount \<Rightarrow>
         (let w1 = emit (LogInfo (''Fetching pair data for '' @ address quoteToken @ ''-'' @
                                  address baseToken @ ''.'')) w
          in case fetchPairData env quoteToken baseToken of
               Inl e \<Rightarrow> (Inl e, u, w1)
             | Inr pr \<Rightarrow>
                (case bestTradeExactOut env (u_pools u @ [pr]) quoteToken nativeTokenAmount
                        (u_maxHops u) of
                   Inl e \<Rightarrow> (Inl e, u, w1)
                 | Inr trades \<Rightarrow>
                    (case trades of
                       [] \<Rightarrow>
                         (Inl (UniswapishPriceError
                                 (''priceSwapOut: no trade pair found for '' @
                                  address quoteToken @ '' to '' @ address baseToken @ ''.'')),
                          u, w1)
                     | best # _ \<Rightarrow>
                        (case executionPrice_invert_toFixed env best 6 of
                           Inl e \<Rightarrow> (Inl e, u, w1)
                         | Inr price \<Rightarrow>
                            (let w2 = emit (LogInfo (''Best trade for '' @ address quoteToken @
                                                     ''-'' @ address baseToken @ '': '' @ price @
                                                     '' '' @ template_opt (name baseToken) @
                                                     ''.'')) w1
                             in case getSlippagePercentage env of
                                  Inl e \<Rightarrow> (Inl e, u, w2)
                                | Inr slippage \<Rightarrow>
                                   (case maximumAmountIn env best slippage of
                                      Inl e \<Rightarrow> (Inl e, u, w2)
                                    | Inr amountIn \<Rightarrow>
                                        (Inr \<lparr>et_trade = best, expectedAmount = amountIn\<rparr>,
                                         u, w2))))))))"

subsection \<open>executeTrade\<close>

text \<open>
  Modelled from the spec: \<^verbatim>\<open>getNonce\<close> of the per-wallet nonce manager
  \<^verbatim>\<open>this.ethereum.nonceManager\<close>, which is not in this file. The manager's state is
  the next sequence number of each wallet, and \<^verbatim>\<open>getNonce\<close> reads it ("acquire the
  next sequence number from the external per-wallet nonce manager").
\<close>

definition getNonce :: "(address \<Rightarrow> nat) \<Rightarrow> address \<Rightarrow> nat" where
  "getNonce nm a = nm a"

text \<open>
  Modelled from the spec: \<^verbatim>\<open>commitNonce\<close> of the same nonce manager, which records
  the nonce as used ("commit the used nonce via the external nonce manager (advancing the
  wallet's sequence number)").
\<close>

definition commitNonce :: "(address \<Rightarrow> nat) \<Rightarrow> address \<Rightarrow> nat \<Rightarrow> (address \<Rightarrow> nat)" where
  "commitNonce nm a n = nm(a := Suc n)"

text \<open>
  \<^verbatim>\<open>executeTrade\<close>. The ABI argument only selects the contract's interface and is left
  out; the two object literals of the source differ in the gas fields alone, so the
  request is built once with the overrides of the branch taken.
  \<^verbatim>\<open>(gasPrice * 1e9).toFixed(0)\<close> is the runtime's product of two doubles, then the
  runtime's \<^verbatim>\<open>toFixed\<close>.
\<close>

definition executeTrade ::
  "env \<Rightarrow> uniswap \<Rightarrow> world \<Rightarrow> wallet \<Rightarrow> trade \<Rightarrow> number \<Rightarrow> address \<Rightarrow> nat \<Rightarrow> number \<Rightarrow>
   nat option \<Rightarrow> int option \<Rightarrow> int option \<Rightarrow> transaction outcome" where
  "executeTrade env u w wallet tr gasPrice uniswapRouter ttl gasLimit nonce
     maxFeePerGas maxPriorityFeePerGas =
     (case getSlippagePercentage env of
        Inl e \<Rightarrow> (Inl e, u, w)
      | Inr slippage \<Rightarrow>
         (case swapCallParameters env tr ttl (wallet_address wallet) slippage of
            Inl e \<Rightarrow> (Inl e, u, w)
          | Inr result \<Rightarrow>
             (let (nonce1, w1) =
                    (case nonce of
                       None \<Rightarrow> (getNonce (nonces w) (wallet_address wallet),
                                 emit (GetNonce (wallet_address wallet)) w)
                     | Some n \<Rightarrow> (n, w));
                  ov = (if maxFeePerGas \<noteq> None \<or> maxPriorityFeePerGas \<noteq> None then
                          \<lparr>ov_gasPrice = None,
                           ov_gasLimit = number_toFixed env gasLimit 0,
                           ov_value = sp_value result,
                           ov_nonce = nonce1,
                           ov_maxFeePerGas = maxFeePerGas,
                           ov_maxPriorityFeePerGas = maxPriorityFeePerGas\<rparr>
                        else
                          \<lparr>ov_gasPrice =
                             Some (number_toFixed env (number_times env gasPrice number_1e9) 0),
                           ov_gasLimit = number_toFixed env gasLimit 0,
                           ov_value = sp_value result,
                           ov_nonce = nonce1,
                           ov_maxFeePerGas = None,
                           ov_maxPriorityFeePerGas = None\<rparr>);
                  req = \<lparr>req_contract = uniswapRouter,
                         req_signer = wallet_address wallet,
                         req_methodName = methodName result,
                         req_args = args result,
                         req_overrides = ov\<rparr>;
                  w2 = emit (Submit req) w1
              in case contract_call env req of
                   Inl e \<Rightarrow> (Inl e, u, w2)
                 | Inr tx \<Rightarrow>
                     (let w3 = emit (LogTx tx) w2;
                          w4 = (emit (CommitNonce (wallet_address wallet) nonce1) w3)
                                 \<lparr>nonces := commitNonce (nonces w3) (wallet_address wallet) nonce1\<rparr>
                      in (Inr tx, u, w4)))))"

subsection \<open>getInstance\<close>

text \<open>
  What the constructor reads: \<^verbatim>\<open>UniswapConfig.config\<close> and the chain id of
  \<^verbatim>\<open>Ethereum.getInstance(network)\<close>.
\<close>

record config =
  cfg_ttl :: "nat \<Rightarrow> nat"
  cfg_gasLimit :: "nat \<Rightarrow> nat"
  uniswapV2RouterAddress :: "string \<Rightarrow> address"
  uniswapV2FactoryAddress :: "string \<Rightarrow> address"
  cfg_pools :: "string \<Rightarrow> string list"
  cfg_maxHops :: "string \<Rightarrow> nat"
  ethereum_chainId :: "string \<Rightarrow> nat"

definition new_Uniswap :: "config \<Rightarrow> string \<Rightarrow> string \<Rightarrow> uniswap" where
  "new_Uniswap cfg chain network =
     \<lparr>ethereum = network,
      u_chain = chain,
      u_router = uniswapV2RouterAddress cfg network,
      u_factoryAddress = uniswapV2FactoryAddress cfg network,
      u_gasLimit = cfg_gasLimit cfg 2,
      u_ttl = cfg_ttl cfg 2,
      u_chainId = ethereum_chainId cfg network,
      tokenList = Map.empty,
      u_ready = False,
      u_poolStrings = cfg_pools cfg network,
      u_pools = [],
      u_maxHops = cfg_maxHops cfg network\<rparr>"

text \<open>
  The static \<^verbatim>\<open>Uniswap._instances\<close> (\<open>None\<close> while it is \<^verbatim>\<open>undefined\<close>) and the
  objects it refers to: an object is its index in \<open>heap\<close>, so two results are the same
  object exactly when they are the same index. Keys that name a member of
  \<^verbatim>\<open>Object.prototype\<close>, which the operator \<^verbatim>\<open>in\<close> also finds, are not modelled.
\<close>

record registry =
  instances :: "(string \<rightharpoonup> nat) option"
  heap :: "uniswap list"

definition registry0 :: registry where
  "registry0 = \<lparr>instances = None, heap = []\<rparr>"

definition getInstance :: "config \<Rightarrow> string \<Rightarrow> string \<Rightarrow> registry \<Rightarrow> nat \<times> registry" where
  "getInstance cfg chain network reg =
     (let m = (case instances reg of None \<Rightarrow> Map.empty | Some m \<Rightarrow> m)
      in case m (chain @ network) of
           Some obj \<Rightarrow> (obj, reg\<lparr>instances := Some m\<rparr>)
         | None \<Rightarrow>
             (length (heap reg),
              \<lparr>instances = Some (m(chain @ network \<mapsto> length (heap reg))),
               heap = heap reg @ [new_Uniswap cfg chain network]\<rparr>))"

text \<open>A history of the process: the calls of \<^verbatim>\<open>getInstance\<close> in the order they are made,
  and the object each returns.\<close>

fun getInstance_calls :: "config \<Rightarrow> (string \<times> string) list \<Rightarrow> registry \<Rightarrow> nat list \<times> registry" where
  "getInstance_calls cfg [] reg = ([], reg)"
| "getInstance_calls cfg ((chain, network) # calls) reg =
     (case getInstance cfg chain network reg of
        (obj, reg1) \<Rightarrow>
          (case getInstance_calls cfg calls reg1 of
             (objs, reg2) \<Rightarrow> (obj # objs, reg2)))"

subsection \<open>getTradeRoute\<close>

text \<open>
  \<^verbatim>\<open>
  let prevTokenSymbol: string | null = null;
  for (const token of trade.route.path) {
    const currentTokenSymbol = token.symbol;
    if (currentTokenSymbol !== undefined) {
      if (prevTokenSymbol !== null) path.push(`${prevTokenSymbol}-${currentTokenSymbol}`);
      prevTokenSymbol = currentTokenSymbol;
    }
  }
  \<close>
  The loop, with the array \<^verbatim>\<open>path\<close> and \<^verbatim>\<open>prevTokenSymbol\<close> as its state.
\<close>

fun getTradeRoute_loop :: "token list \<Rightarrow> string list \<Rightarrow> string option \<Rightarrow> string list" where
  "getTradeRoute_loop [] path prevTokenSymbol = path"
| "getTradeRoute_loop (tok # toks) path prevTokenSymbol =
     (case symbol tok of
        None \<Rightarrow> getTradeRoute_loop toks path prevTokenSymbol
      | Some currentTokenSymbol \<Rightarrow>
          (case prevTokenSymbol of
             None \<Rightarrow> getTradeRoute_loop toks path (Some currentTokenSymbol)
           | Some prev \<Rightarrow>
               getTradeRoute_loop toks (path @ [prev @ ''-'' @ currentTokenSymbol])
                 (Some currentTokenSymbol)))"

definition getTradeRoute :: "trade \<Rightarrow> string list" where
  "getTradeRoute tr =
     (case route_path (trade_route tr) of
        None \<Rightarrow> []
      | Some toks \<Rightarrow> getTradeRoute_loop toks [] None)"

text \<open>The hop descriptors of a list of symbols: one per consecutive pair, in order.\<close>

definition hop_descriptors :: "string list \<Rightarrow> string list" where
  "hop_descriptors syms = map (\<lambda>(a, b). a @ ''-'' @ b) (zip syms (tl syms))"

subsection \<open>Observations on a run\<close>





definition is_price_error :: "error + 'a \<Rightarrow> bool" where
  "is_price_error r = (case r of Inl (UniswapishPriceError _) \<Rightarrow> True | _ \<Rightarrow> False)"






subsection \<open>Pool initialization, entry by entry\<close>

text \<open>
  What the description of pool initialization says of one entry of the list, read on its
  own: malformed; base unknown; quote unknown; no pool at the factory; a pool, with its
  pair; or a step that ends the initialization, with its error (a token the SDK refuses,
  a rejected read of the factory or of the pair). This follows the description, not the
  loop; the theorem on \<open>initDirectPools\<close> compares the two.
\<close>

datatype entry_kind =
    Malformed string
  | UnknownBase string
  | UnknownQuote string
  | NoPool string string
  | Pool pair
  | Aborted error

definition entry_kind :: "env \<Rightarrow> uniswap \<Rightarrow> string \<Rightarrow> entry_kind" where
  "entry_kind env u pr =
     (case js_split CHR ''-'' pr of
        [base, quote] \<Rightarrow>
          (case getTokenForSymbol env base of
             None \<Rightarrow> UnknownBase base
           | Some bi \<Rightarrow>
              (case getTokenForSymbol env quote of
                 None \<Rightarrow> UnknownQuote quote
               | Some qi \<Rightarrow>
                  (case new_Token env (u_chainId u) (ti_address bi) (ti_decimals bi)
                          (ti_symbol bi) (ti_name bi) of
                     Inl e \<Rightarrow> Aborted e
                   | Inr baseToken \<Rightarrow>
                      (case new_Token env (u_chainId u) (ti_address qi) (ti_decimals qi)
                              (ti_symbol qi) (ti_name qi) of
                         Inl e \<Rightarrow> Aborted e
                       | Inr quoteToken \<Rightarrow>
                          (case getPair env (u_factoryAddress u) (address baseToken)
                                  (address quoteToken) of
                             Inl e \<Rightarrow> Aborted e
                           | Inr pairAddress \<Rightarrow>
                               if pairAddress = zeroAddress env \<or> pairAddress = [] then
                                 NoPool base quote
                               else
                                 (case fetchPairData env baseToken quoteToken of
                                    Inl e \<Rightarrow> Aborted e
                                  | Inr p \<Rightarrow> Pool p))))))
      | _ \<Rightarrow> Malformed pr)"

definition aborted :: "entry_kind \<Rightarrow> bool" where
  "aborted k = (case k of Aborted _ \<Rightarrow> True | _ \<Rightarrow> False)"

definition kind_pools :: "entry_kind \<Rightarrow> pair list" where
  "kind_pools k = (case k of Pool p \<Rightarrow> [p] | _ \<Rightarrow> [])"

text \<open>The warning of a skipped entry on the chain \<open>c\<close>: it names the entry, or the side
  whose symbol is unknown and that symbol, or the two symbols without a pool.\<close>

definition kind_warnings :: "string \<Rightarrow> entry_kind \<Rightarrow> event list" where
  "kind_warnings c k =
     (case k of
        Malformed pr \<Rightarrow>
          [LogWarning (''The pool pair '' @ pr @ '' in your Uniswap V2 config for '' @ c @
                       '' is malformed. It should be a string in the format '' @ [CHR 0x27] @
                       ''BASE-QUOTE'' @ [CHR 0x27] @ ''.'')]
      | UnknownBase base \<Rightarrow>
          [LogWarning (''There is an unrecognized base token in your Uniswap V2 config for '' @
                       c @ '': '' @ base @ ''.'')]
      | UnknownQuote quote \<Rightarrow>
          [LogWarning (''There is an unrecognized quote token in your Uniswap V2 config for '' @
                       c @ '': '' @ quote @ ''.'')]
      | NoPool base quote \<Rightarrow>
          [LogWarning (''There is not a direct pool pair for '' @ base @ '','' @ quote @
                       '' on '' @ c @ '' for Uniswap V2.'')]
      | Pool _ \<Rightarrow> []
      | Aborted _ \<Rightarrow> [])"

text \<open>The entries handled before the first one that ends the initialization, and the
  outcome: the error of that one, or completion when there is none.\<close>

definition processed :: "env \<Rightarrow> uniswap \<Rightarrow> string list \<Rightarrow> entry_kind list" where
  "processed env u prs = takeWhile (\<lambda>k. \<not> aborted k) (map (entry_kind env u) prs)"

definition abort_of :: "env \<Rightarrow> uniswap \<Rightarrow> string list \<Rightarrow> error + unit" where
  "abort_of env u prs =
     (case dropWhile (\<lambda>k. \<not> aborted k) (map (entry_kind env u) prs) of
        Aborted e # _ \<Rightarrow> Inl e
      | _ \<Rightarrow> Inr ())"

text \<open>What one entry adds, whatever the pools and the trace were before it.\<close>

definition entry_run :: "env \<Rightarrow> uniswap \<Rightarrow> string \<Rightarrow> (error + unit) \<times> pair list \<times> event list" where
  "entry_run env u pr =
     (case initDirectPools_entry env pr (u\<lparr>u_pools := []\<rparr>) \<lparr>nonces = (\<lambda>_. 0), trace = []\<rparr> of
        (r, u', w') \<Rightarrow> (r, u_pools u', trace w'))"

definition same_config :: "uniswap \<Rightarrow> uniswap \<Rightarrow> bool" where
  "same_config u2 u \<longleftrightarrow>
     u_chain u2 = u_chain u \<and> u_chainId u2 = u_chainId u \<and>
     u_factoryAddress u2 = u_factoryAddress u"

subsection \<open>The registry as a map\<close>

definition lookup :: "registry \<Rightarrow> string \<rightharpoonup> nat" where
  "lookup reg = (case instances reg of None \<Rightarrow> Map.empty | Some m \<Rightarrow> m)"

text \<open>Every registered object is allocated, and no object is registered under two keys.\<close>

definition registry_inv :: "registry \<Rightarrow> bool" where
  "registry_inv reg \<longleftrightarrow>
     (\<forall>k obj. lookup reg k = Some obj \<longrightarrow> obj < length (heap reg)) \<and>
     (\<forall>k k' obj. lookup reg k = Some obj \<longrightarrow> lookup reg k' = Some obj \<longrightarrow> k = k')"

subsection \<open>A small network for the concrete instances\<close>

text \<open>
  Two listed tokens with a pool between them, a third listed token without one, and a
  token that has no symbol. The SDK's functions are stand-ins: the constructors accept
  what they are given, no trade is ever found, and the slippage bounds return the trade's
  own amounts. The runtime's arithmetic is tabulated at the numbers used below: 2.5 and
  30.000000041499998 times \<^verbatim>\<open>1e9\<close> are the doubles 2500000000 and 30000000041.5, whose
  \<^verbatim>\<open>toFixed(0)\<close> are "2500000000" and "30000000042"; 150688 is the gas limit.
\<close>

definition ex_WETH_info :: tokenInfo where
  "ex_WETH_info = \<lparr>ti_chainId = 1, ti_address = ''0xC02a'', ti_name = ''Wrapped Ether'',
                   ti_symbol = ''WETH'', ti_decimals = 18\<rparr>"

definition ex_DAI_info :: tokenInfo where
  "ex_DAI_info = \<lparr>ti_chainId = 1, ti_address = ''0x6B17'', ti_name = ''Dai Stablecoin'',
                  ti_symbol = ''DAI'', ti_decimals = 18\<rparr>"

definition ex_USDC_info :: tokenInfo where
  "ex_USDC_info = \<lparr>ti_chainId = 1, ti_address = ''0xA0b8'', ti_name = ''USD Coin'',
                   ti_symbol = ''USDC'', ti_decimals = 6\<rparr>"

definition ex_WETH :: token where
  "ex_WETH = \<lparr>chainId = 1, address = ''0xC02a'', decimals = 18, symbol = Some ''WETH'',
              name = Some ''Wrapped Ether''\<rparr>"

definition ex_DAI :: token where
  "ex_DAI = \<lparr>chainId = 1, address = ''0x6B17'', decimals = 18, symbol = Some ''DAI'',
             name = Some ''Dai Stablecoin''\<rparr>"

definition ex_USDC :: token where
  "ex_USDC = \<lparr>chainId = 1, address = ''0xA0b8'', decimals = 6, symbol = Some ''USDC'',
              name = Some ''USD Coin''\<rparr>"

definition ex_NOSYM :: token where
  "ex_NOSYM = \<lparr>chainId = 1, address = ''0x1f98'', decimals = 18, symbol = None, name = None\<rparr>"

definition ex_pair :: pair where
  "ex_pair = \<lparr>tokenA = ex_WETH, tokenB = ex_DAI, reserveA = 1000, reserveB = 1000\<rparr>"

definition ex_dry_pair :: pair where
  "ex_dry_pair = \<lparr>tokenA = ex_WETH, tokenB = ex_DAI, reserveA = 0, reserveB = 0\<rparr>"

definition ex_2_5 :: number where
  "ex_2_5 = Double 0x4004000000000000"

definition ex_30_fraction :: number where
  "ex_30_fraction = Double 0x403E000000B23DBB"

definition ex_gasLimit :: number where
  "ex_gasLimit = Double 0x4102650000000000"

definition ex_env :: env where
  "ex_env =
     \<lparr>ethereum_ready = True,
      storedTokenList = [ex_WETH_info, ex_DAI_info, ex_USDC_info],
      getTokenForSymbol =
        (\<lambda>s. if s = ''WETH'' then Some ex_WETH_info
             else if s = ''DAI'' then Some ex_DAI_info
             else if s = ''USDC'' then Some ex_USDC_info else None),
      zeroAddress = ''0x0000000000000000000000000000000000000000'',
      SERVICE_UNITIALIZED_ERROR_CODE = 1003,
      SERVICE_UNITIALIZED_ERROR_MESSAGE = (\<lambda>s. s @ '' was called before being initialized.''),
      allowedSlippage = (\<lambda>_. ''1/100''),
      percentRegexp_match = (\<lambda>s. if s = ''1/100'' then Some (''1'', ''100'') else None),
      getPair =
        (\<lambda>f a b. Inr (if (a = ''0xC02a'' \<and> b = ''0x6B17'') \<or> (a = ''0x6B17'' \<and> b = ''0xC02a'')
                       then ''0xA478''
                       else ''0x0000000000000000000000000000000000000000'')),
      new_Token =
        (\<lambda>cid a d s n.
           Inr \<lparr>chainId = cid, address = a, decimals = d, symbol = Some s, name = Some n\<rparr>),
      new_Percent = (\<lambda>n d. Inr \<lparr>numerator = n, denominator = d\<rparr>),
      fetchPairData = (\<lambda>a b. Inr \<lparr>tokenA = a, tokenB = b, reserveA = 1000, reserveB = 1000\<rparr>),
      bestTradeExactIn = (\<lambda>_ _ _ _. Inr []),
      bestTradeExactOut = (\<lambda>_ _ _ _. Inr []),
      minimumAmountOut = (\<lambda>tr _. Inr (outputAmount tr)),
      maximumAmountIn = (\<lambda>tr _. Inr (inputAmount tr)),
      executionPrice_toFixed = (\<lambda>_ _. Inr ''0.900000''),
      executionPrice_invert_toFixed = (\<lambda>_ _. Inr ''1.111111''),
      token_toString = (\<lambda>_. ''[object Object]''),
      swapCallParameters =
        (\<lambda>tr ttl recipient slippage.
           Inr \<lparr>methodName = ''swapExactTokensForTokens'',
                args = [Str ''0xa'', Str ''0x8'', Strs [''0xC02a'', ''0x6B17''], Str recipient,
                        Str ''0x6543''],
                sp_value = ''0x00''\<rparr>),
      contract_call =
        (\<lambda>req. Inr \<lparr>tx_hash = ''0x5d1f'', tx_nonce = ov_nonce (req_overrides req)\<rparr>),
      number_times =
        (\<lambda>x y. if x = Double 0x4004000000000000 \<and> y = Double 0x41CDCD6500000000
                then Double 0x41E2A05F20000000
                else if x = Double 0x403E000000B23DBB \<and> y = Double 0x41CDCD6500000000
                then Double 0x421BF08EB0A60000
                else Double 0x7FF8000000000000),
      number_toFixed =
        (\<lambda>x digits. if x = Double 0x41E2A05F20000000 then ''2500000000''
                     else if x = Double 0x421BF08EB0A60000 then ''30000000042''
                     else if x = Double 0x4102650000000000 then ''150688''
                     else ''NaN'')\<rparr>"

text \<open>The same network when the pair data cannot be fetched, when the router call is
  rejected, and when the factory's read for DAI and USDC is rejected.\<close>

definition ex_env_unfetched :: env where
  "ex_env_unfetched = ex_env\<lparr>fetchPairData := (\<lambda>_ _. Inl (Rejected ''call revert exception''))\<rparr>"

definition ex_env_rejecting :: env where
  "ex_env_rejecting = ex_env\<lparr>contract_call := (\<lambda>_. Inl (Rejected ''insufficient funds''))\<rparr>"

definition ex_env_down :: env where
  "ex_env_down =
     ex_env\<lparr>getPair :=
              (\<lambda>f a b. if a = ''0x6B17'' \<and> b = ''0xA0b8'' then Inl (Rejected ''timeout'')
                        else getPair ex_env f a b)\<rparr>"

text \<open>
  A search that is not constant: the direct trades through the pairs that join the two
  tokens and have liquidity for the amount, priced by the constant-product formula with
  the fee of 0.3 percent. With it, the network whose fetched pairs are empty.
\<close>

definition ex_oriented :: "pair \<Rightarrow> token \<Rightarrow> token \<Rightarrow> (int \<times> int) option" where
  "ex_oriented p tin tout =
     (if address (tokenA p) = address tin \<and> address (tokenB p) = address tout
      then Some (reserveA p, reserveB p)
      else if address (tokenA p) = address tout \<and> address (tokenB p) = address tin
      then Some (reserveB p, reserveA p)
      else None)"

definition ex_direct_in :: "pair list \<Rightarrow> tokenAmount \<Rightarrow> token \<Rightarrow> nat \<Rightarrow> error + trade list" where
  "ex_direct_in pairs amountIn tout maxHops =
     Inr (concat (map (\<lambda>p.
       case ex_oriented p (ta_token amountIn) tout of
         None \<Rightarrow> []
       | Some (rin, rout) \<Rightarrow>
           if 0 < rin \<and> 0 < rout \<and>
              0 < (ta_raw amountIn * 997 * rout) div (rin * 1000 + ta_raw amountIn * 997)
           then [\<lparr>trade_route = \<lparr>route_pairs = [p],
                                  route_path = Some [ta_token amountIn, tout]\<rparr>,
                   trade_tradeType = EXACT_INPUT,
                   inputAmount = amountIn,
                   outputAmount =
                     \<lparr>ta_token = tout,
                      ta_raw = (ta_raw amountIn * 997 * rout) div
                               (rin * 1000 + ta_raw amountIn * 997)\<rparr>\<rparr>]
           else []) pairs))"

definition ex_direct_out :: "pair list \<Rightarrow> token \<Rightarrow> tokenAmount \<Rightarrow> nat \<Rightarrow> error + trade list" where
  "ex_direct_out pairs tin amountOut maxHops =
     Inr (concat (map (\<lambda>p.
       case ex_oriented p tin (ta_token amountOut) of
         None \<Rightarrow> []
       | Some (rin, rout) \<Rightarrow>
           if 0 < rin \<and> ta_raw amountOut < rout
           then [\<lparr>trade_route = \<lparr>route_pairs = [p],
                                  route_path = Some [tin, ta_token amountOut]\<rparr>,
                   trade_tradeType = EXACT_OUTPUT,
                   inputAmount =
                     \<lparr>ta_token = tin,
                      ta_raw = (rin * ta_raw amountOut * 1000) div
                               ((rout - ta_raw amountOut) * 997) + 1\<rparr>,
                   outputAmount = amountOut\<rparr>]
           else []) pairs))"

definition ex_env_dry :: env where
  "ex_env_dry =
     ex_env\<lparr>fetchPairData := (\<lambda>a b. Inr \<lparr>tokenA = a, tokenB = b, reserveA = 0, reserveB = 0\<rparr>),
            bestTradeExactIn := ex_direct_in,
            bestTradeExactOut := ex_direct_out\<rparr>"

definition ex_cfg :: config where
  "ex_cfg =
     \<lparr>cfg_ttl = (\<lambda>_. 600),
      cfg_gasLimit = (\<lambda>_. 150688),
      uniswapV2RouterAddress = (\<lambda>_. ''0x7a25''),
      uniswapV2FactoryAddress = (\<lambda>_. ''0x5C69''),
      cfg_pools = (\<lambda>_. [''ONLYONE'', ''WETH-DAI'']),
      cfg_maxHops = (\<lambda>_. 4),
      ethereum_chainId = (\<lambda>_. 1)\<rparr>"

definition ex_u :: uniswap where
  "ex_u = new_Uniswap ex_cfg ''ethereum'' ''mainnet''"

definition ex_u_five :: uniswap where
  "ex_u_five = ex_u\<lparr>u_poolStrings := [''ONLYONE'', ''WETH-DAI'', ''XYZ-DAI'', ''WETH-XYZ'', ''DAI-USDC'']\<rparr>"

definition ex_u_down :: uniswap where
  "ex_u_down = ex_u\<lparr>u_poolStrings := [''ONLYONE'', ''DAI-USDC'', ''WETH-DAI'']\<rparr>"

definition ex_w :: world where
  "ex_w = \<lparr>nonces = (\<lambda>_. 7), trace = []\<rparr>"

definition ex_u1 :: uniswap where
  "ex_u1 = fst (snd (init ex_env ex_u ex_w))"

definition ex_w1 :: world where
  "ex_w1 = snd (snd (init ex_env ex_u ex_w))"

definition ex_wallet :: wallet where
  "ex_wallet = \<lparr>wallet_address = ''0xFaA1''\<rparr>"

definition ex_trade :: trade where
  "ex_trade =
     \<lparr>trade_route = \<lparr>route_pairs = [ex_pair], route_path = Some [ex_WETH, ex_DAI]\<rparr>,
      trade_tradeType = EXACT_INPUT,
      inputAmount = \<lparr>ta_token = ex_WETH, ta_raw = 10\<rparr>,
      outputAmount = \<lparr>ta_token = ex_DAI, ta_raw = 9\<rparr>\<rparr>"

definition ex_trade_via :: "token \<Rightarrow> trade" where
  "ex_trade_via mid =
     ex_trade\<lparr>trade_route := \<lparr>route_pairs = [], route_path = Some [ex_WETH, mid, ex_DAI]\<rparr>\<rparr>"





definition ex_calls :: "(string \<times> string) list" where
  "ex_calls = [(''ab'', ''c''), (''a'', ''bc''), (''ab'', ''d'')]"

section \<open>Properties\<close>

subsection \<open>Auxiliary facts\<close>

lemmas ex_defs =
  ex_env_def ex_u_def ex_w_def ex_cfg_def new_Uniswap_def ex_WETH_info_def ex_DAI_info_def
  ex_USDC_info_def ex_WETH_def ex_DAI_def ex_USDC_def ex_NOSYM_def ex_pair_def
  ex_wallet_def ex_trade_def ex_trade_via_def ex_env_unfetched_def ex_env_rejecting_def
  ex_2_5_def ex_30_fraction_def ex_gasLimit_def number_1e9_def

lemmas run_defs =
  init_def initDirectPools_def initDirectPools_entry_def getPool_def truthy_def emit_def Let_def
  executeTrade_def getSlippagePercentage_def getNonce_def commitNonce_def new_TokenAmount_def

lemma hop_descriptors_simps:
  "hop_descriptors [] = []"
  "hop_descriptors [a] = []"
  "hop_descriptors (a # b # xs) = (a @ ''-'' @ b) # hop_descriptors (b # xs)"
  by (simp_all add: hop_descriptors_def)

lemma getTradeRoute_loop_hops:
  "getTradeRoute_loop toks path prev =
     path @ hop_descriptors ((case prev of None \<Rightarrow> [] | Some p \<Rightarrow> [p]) @
                             List.map_filter symbol toks)"
proof (induction toks arbitrary: path prev)
  case Nil
  then show ?case by (simp add: hop_descriptors_simps split: option.split)
next
  case (Cons tok toks)
  show ?case
  proof (cases "symbol tok")
    case None
    then show ?thesis by (simp add: Cons.IH)
  next
    case (Some cur)
    then show ?thesis
      by (cases prev) (simp_all add: Cons.IH hop_descriptors_simps)
  qed
qed

lemma hop_descriptors_length: "length (hop_descriptors syms) = length syms - 1"
  by (simp add: hop_descriptors_def)

lemma hop_descriptors_nth:
  "i < length syms - 1 \<Longrightarrow> hop_descriptors syms ! i = syms ! i @ ''-'' @ syms ! Suc i"
  by (simp add: hop_descriptors_def nth_tl)

lemma map_filter_all_defined:
  "\<forall>t \<in> set toks. symbol t \<noteq> None \<Longrightarrow>
   List.map_filter symbol toks = map (\<lambda>t. the (symbol t)) toks"
  by (induction toks) auto

lemma length2E: "length xs = 2 \<Longrightarrow> \<exists>a b. xs = [a, b]"
  by (cases xs; cases "tl xs"; auto)

lemma length2_case:
  "length xs \<noteq> 2 \<Longrightarrow> (case xs of [a, b] \<Rightarrow> f a b | _ \<Rightarrow> g) = g"
  by (auto split: list.splits)

lemma initDirectPools_entry_kind:
  "initDirectPools_entry env pr u w =
     (case entry_kind env u pr of
        Aborted e \<Rightarrow> (Inl e, u, w)
      | k \<Rightarrow> (Inr (), u\<lparr>u_pools := u_pools u @ kind_pools k\<rparr>,
              w\<lparr>trace := trace w @ kind_warnings (u_chain u) k\<rparr>))"
proof (cases "length (js_split CHR ''-'' pr) = 2")
  case False
  then show ?thesis
    by (simp add: initDirectPools_entry_def entry_kind_def kind_pools_def kind_warnings_def
        length2_case emit_def)
next
  case True
  then obtain base quote where sp: "js_split CHR ''-'' pr = [base, quote]"
    using length2E by blast
  show ?thesis
    using sp
    by (simp add: initDirectPools_entry_def entry_kind_def kind_pools_def kind_warnings_def
        emit_def getPool_def truthy_def Let_def split: option.split sum.split)
qed

lemma entry_kind_u_pools [simp]:
  "entry_kind env (u\<lparr>u_pools := ps\<rparr>) = entry_kind env u"
  by (rule ext) (simp add: entry_kind_def split: list.split option.split sum.split)

lemma processed_u_pools [simp]:
  "processed env (u\<lparr>u_pools := ps\<rparr>) prs = processed env u prs"
  by (simp add: processed_def)

lemma abort_of_u_pools [simp]:
  "abort_of env (u\<lparr>u_pools := ps\<rparr>) prs = abort_of env u prs"
  by (simp add: abort_of_def)

lemma processed_Cons:
  "processed env u (pr # prs) =
     (if aborted (entry_kind env u pr) then [] else entry_kind env u pr # processed env u prs)"
  by (simp add: processed_def)

lemma abort_of_Cons:
  "abort_of env u (pr # prs) =
     (case entry_kind env u pr of Aborted e \<Rightarrow> Inl e | _ \<Rightarrow> abort_of env u prs)"
  by (cases "entry_kind env u pr") (simp_all add: abort_of_def aborted_def)

lemma initDirectPools_loop_kinds:
  "initDirectPools_loop env prs u w =
     (abort_of env u prs,
      u\<lparr>u_pools := u_pools u @ concat (map kind_pools (processed env u prs))\<rparr>,
      w\<lparr>trace := trace w @ concat (map (kind_warnings (u_chain u)) (processed env u prs))\<rparr>)"
proof (induction prs arbitrary: u w)
  case Nil
  show ?case by (simp add: processed_def abort_of_def)
next
  case (Cons pr prs)
  show ?case
    by (cases "entry_kind env u pr")
       (simp_all add: initDirectPools_entry_kind Cons.IH processed_Cons abort_of_Cons
          aborted_def)
qed

lemma processed_all:
  "list_all (\<lambda>pr. \<not> aborted (entry_kind env u pr)) prs \<Longrightarrow>
   processed env u prs = map (entry_kind env u) prs \<and> abort_of env u prs = Inr ()"
  by (induction prs)
     (auto simp: processed_def abort_of_def aborted_def split: entry_kind.splits)

lemma initDirectPools_entry_run:
  "initDirectPools_entry env pr u w =
     (case entry_run env u pr of
        (r, d, evs) \<Rightarrow> (r, u\<lparr>u_pools := u_pools u @ d\<rparr>, w\<lparr>trace := trace w @ evs\<rparr>))"
  unfolding entry_run_def initDirectPools_entry_def Let_def emit_def
  by (simp split: option.split sum.split)

lemma entry_run_same_config:
  "same_config u2 u \<Longrightarrow> entry_run env u2 pr = entry_run env u pr"
  unfolding entry_run_def initDirectPools_entry_def Let_def emit_def same_config_def
  by (simp split: option.split sum.split)

lemma entry_same_config:
  assumes "initDirectPools_entry env pr u w = (r, u', w')" and "same_config u2 u"
  shows "\<exists>d evs. u' = u\<lparr>u_pools := u_pools u @ d\<rparr> \<and> w' = w\<lparr>trace := trace w @ evs\<rparr> \<and>
           initDirectPools_entry env pr u2 w2 =
             (r, u2\<lparr>u_pools := u_pools u2 @ d\<rparr>, w2\<lparr>trace := trace w2 @ evs\<rparr>)"
proof -
  obtain r0 d evs where run: "entry_run env u pr = (r0, d, evs)"
    by (cases "entry_run env u pr") auto
  with assms(1) have "r0 = r" "u' = u\<lparr>u_pools := u_pools u @ d\<rparr>"
    "w' = w\<lparr>trace := trace w @ evs\<rparr>"
    by (simp_all add: initDirectPools_entry_run)
  moreover have "initDirectPools_entry env pr u2 w2 =
             (r0, u2\<lparr>u_pools := u_pools u2 @ d\<rparr>, w2\<lparr>trace := trace w2 @ evs\<rparr>)"
    using run entry_run_same_config [OF assms(2), of env pr]
    by (simp add: initDirectPools_entry_run)
  ultimately show ?thesis by blast
qed

lemma loop_same_config:
  assumes "initDirectPools_loop env prs u w = (r, u', w')" and "same_config u2 u"
  shows "\<exists>d w2'. u' = u\<lparr>u_pools := u_pools u @ d\<rparr> \<and>
           initDirectPools_loop env prs u2 w2 = (r, u2\<lparr>u_pools := u_pools u2 @ d\<rparr>, w2')"
  using assms
proof (induction prs arbitrary: u w u2 w2)
  case Nil
  then show ?case by (auto intro: exI [of _ "[]"])
next
  case (Cons pr prs)
  obtain r1 ua wa where e: "initDirectPools_entry env pr u w = (r1, ua, wa)"
    by (cases "initDirectPools_entry env pr u w") auto
  from entry_same_config [OF e Cons.prems(2), of w2]
  obtain d1 evs where ua: "ua = u\<lparr>u_pools := u_pools u @ d1\<rparr>"
    and e2: "initDirectPools_entry env pr u2 w2 =
             (r1, u2\<lparr>u_pools := u_pools u2 @ d1\<rparr>, w2\<lparr>trace := trace w2 @ evs\<rparr>)"
    by blast
  show ?case
  proof (cases r1)
    case (Inl err)
    with Cons.prems(1) e e2 ua show ?thesis by auto
  next
    case (Inr x)
    with Cons.prems(1) e have l: "initDirectPools_loop env prs ua wa = (r, u', w')" by simp
    have sc: "same_config (u2\<lparr>u_pools := u_pools u2 @ d1\<rparr>) ua"
      using Cons.prems(2) ua by (simp add: same_config_def)
    from Cons.IH [OF l sc, of "w2\<lparr>trace := trace w2 @ evs\<rparr>"]
    obtain d w2' where u': "u' = ua\<lparr>u_pools := u_pools ua @ d\<rparr>"
      and l2: "initDirectPools_loop env prs (u2\<lparr>u_pools := u_pools u2 @ d1\<rparr>)
                 (w2\<lparr>trace := trace w2 @ evs\<rparr>) =
               (r, u2\<lparr>u_pools := u_pools u2 @ d1,
                      u_pools := u_pools (u2\<lparr>u_pools := u_pools u2 @ d1\<rparr>) @ d\<rparr>, w2')"
      by auto
    have "u' = u\<lparr>u_pools := u_pools u @ (d1 @ d)\<rparr>" using u' ua by simp
    moreover have "initDirectPools_loop env (pr # prs) u2 w2 =
        (r, u2\<lparr>u_pools := u_pools u2 @ (d1 @ d)\<rparr>, w2')"
      using e2 l2 Inr by simp
    ultimately show ?thesis by blast
  qed
qed

lemma init_tokens_ok:
  assumes "init_tokens env cid l T = (Inr (), T1)"
  shows "\<exists>M. T1 = T ++ M \<and> (\<forall>T'. init_tokens env cid l T' = (Inr (), T' ++ M))"
  using assms
proof (induction l arbitrary: T T1)
  case Nil
  then have "T1 = T ++ Map.empty \<and> (\<forall>T'. init_tokens env cid [] T' = (Inr (), T' ++ Map.empty))"
    by simp
  then show ?case by blast
next
  case (Cons t ts)
  let ?a = "ti_address t"
  from Cons.prems obtain tok where
    tok: "new_Token env cid (ti_address t) (ti_decimals t) (ti_symbol t) (ti_name t) = Inr tok"
    and rest: "init_tokens env cid ts (T(?a \<mapsto> tok)) = (Inr (), T1)"
    by (auto split: sum.splits)
  from Cons.IH [OF rest] obtain M where
    M: "T1 = T(?a \<mapsto> tok) ++ M" "\<And>T'. init_tokens env cid ts T' = (Inr (), T' ++ M)"
    by blast
  have shift: "\<And>T'. T'(?a \<mapsto> tok) ++ M = T' ++ ([?a \<mapsto> tok] ++ M)"
    by (rule ext) (simp add: map_add_def split: option.split)
  have "T1 = T ++ ([?a \<mapsto> tok] ++ M)" by (rule trans [OF M(1) shift])
  moreover have "init_tokens env cid (t # ts) T' = (Inr (), T' ++ ([?a \<mapsto> tok] ++ M))" for T'
  proof -
    have "init_tokens env cid (t # ts) T' = (Inr (), T'(?a \<mapsto> tok) ++ M)"
      using tok M(2) by simp
    then show ?thesis by (simp only: shift [of T'])
  qed
  ultimately show ?case by blast
qed

lemma init_tokens_idem:
  assumes "init_tokens env cid l T = (Inr (), T1)"
  shows "init_tokens env cid l T1 = (Inr (), T1)"
proof -
  from init_tokens_ok [OF assms] obtain M where
    M: "T1 = T ++ M" "\<And>T'. init_tokens env cid l T' = (Inr (), T' ++ M)"
    by blast
  have "(T ++ M) ++ M = T ++ M"
    by (rule ext) (simp add: map_add_def split: option.split)
  then show ?thesis using M(1) M(2) [of T1] by simp
qed


lemma registry_inv0: "registry_inv registry0"
  by (simp add: registry_inv_def registry0_def lookup_def)

lemma getInstance_step:
  assumes "registry_inv reg" and "getInstance cfg chain network reg = (obj, reg1)"
  shows "registry_inv reg1"
    and "lookup reg1 (chain @ network) = Some obj"
    and "\<And>k v. lookup reg k = Some v \<Longrightarrow> lookup reg1 k = Some v"
proof -
  show "lookup reg1 (chain @ network) = Some obj"
    using assms(2) by (auto simp: getInstance_def lookup_def Let_def split: option.splits)
  show "\<And>k v. lookup reg k = Some v \<Longrightarrow> lookup reg1 k = Some v"
    using assms(2) by (auto simp: getInstance_def lookup_def Let_def split: option.splits)
  show "registry_inv reg1"
  proof (cases "lookup reg (chain @ network)")
    case (Some x)
    then have "lookup reg1 = lookup reg" "heap reg1 = heap reg"
      using assms(2) by (auto simp: getInstance_def lookup_def Let_def split: option.splits)
    then show ?thesis using assms(1) by (simp add: registry_inv_def)
  next
    case None
    then have l: "lookup reg1 = (lookup reg)(chain @ network \<mapsto> length (heap reg))"
      and h: "length (heap reg1) = Suc (length (heap reg))"
      using assms(2) by (auto simp: getInstance_def lookup_def Let_def split: option.splits)
    show ?thesis
      using assms(1) None unfolding registry_inv_def l h
      by (auto split: if_splits simp: less_Suc_eq)
  qed
qed

lemma getInstance_calls_lookup:
  assumes "registry_inv reg" and "getInstance_calls cfg calls reg = (objs, reg')"
  shows "registry_inv reg' \<and> length objs = length calls \<and>
         (\<forall>k v. lookup reg k = Some v \<longrightarrow> lookup reg' k = Some v) \<and>
         (\<forall>i < length calls.
            lookup reg' (fst (calls ! i) @ snd (calls ! i)) = Some (objs ! i))"
  using assms
proof (induction calls arbitrary: reg objs reg')
  case Nil
  then show ?case by simp
next
  case (Cons c calls)
  obtain chain network where c: "c = (chain, network)" by (cases c)
  obtain obj reg1 where g: "getInstance cfg chain network reg = (obj, reg1)"
    by (cases "getInstance cfg chain network reg")
  obtain objs1 reg2 where r: "getInstance_calls cfg calls reg1 = (objs1, reg2)"
    by (cases "getInstance_calls cfg calls reg1")
  from Cons.prems(2) c g r have eq: "objs = obj # objs1" "reg' = reg2" by simp_all
  note st = getInstance_step [OF Cons.prems(1) g]
  from Cons.IH [OF st(1) r]
  have ih: "registry_inv reg2" "length objs1 = length calls"
    "\<And>k v. lookup reg1 k = Some v \<Longrightarrow> lookup reg2 k = Some v"
    "\<And>i. i < length calls \<Longrightarrow>
       lookup reg2 (fst (calls ! i) @ snd (calls ! i)) = Some (objs1 ! i)"
    by blast+
  have "\<forall>i < length (c # calls).
          lookup reg' (fst ((c # calls) ! i) @ snd ((c # calls) ! i)) = Some (objs ! i)"
  proof (intro allI impI)
    fix i assume "i < length (c # calls)"
    then show "lookup reg' (fst ((c # calls) ! i) @ snd ((c # calls) ! i)) = Some (objs ! i)"
      using ih(3) [OF st(2)] ih(4) eq c by (cases i) simp_all
  qed
  then show ?case using ih st(3) eq by auto
qed

subsection \<open>What the quote functions return\<close>

text \<open>
  The bound of a quote is whatever the SDK's \<^verbatim>\<open>minimumAmountOut\<close> or
  \<^verbatim>\<open>maximumAmountIn\<close> gives for the first trade of the SDK's list and the configured
  percent; this file computes neither the bound nor the order of the list.
\<close>

lemma estimateSellTrade_returns:
  assumes "0 \<le> amount" and "amount < 2 ^ 256"
    and "fetchPairData env baseToken quoteToken = Inr pr"
    and "bestTradeExactIn env (u_pools u @ [pr]) \<lparr>ta_token = baseToken, ta_raw = amount\<rparr>
           quoteToken (u_maxHops u) = Inr (best # rest)"
    and "executionPrice_toFixed env best 6 = Inr price"
    and "getSlippagePercentage env = Inr slippage"
  shows "fst (estimateSellTrade env u w baseToken quoteToken amount) =
           (case minimumAmountOut env best slippage of
              Inl e \<Rightarrow> Inl e
            | Inr amountOut \<Rightarrow> Inr \<lparr>et_trade = best, expectedAmount = amountOut\<rparr>)"
  using assms
  by (simp add: estimateSellTrade_def new_TokenAmount_def Let_def split: sum.split)

lemma estimateBuyTrade_returns:
  assumes "0 \<le> amount" and "amount < 2 ^ 256"
    and "fetchPairData env quoteToken baseToken = Inr pr"
    and "bestTradeExactOut env (u_pools u @ [pr]) quoteToken
           \<lparr>ta_token = baseToken, ta_raw = amount\<rparr> (u_maxHops u) = Inr (best # rest)"
    and "executionPrice_invert_toFixed env best 6 = Inr price"
    and "getSlippagePercentage env = Inr slippage"
  shows "fst (estimateBuyTrade env u w quoteToken baseToken amount) =
           (case maximumAmountIn env best slippage of
              Inl e \<Rightarrow> Inl e
            | Inr amountIn \<Rightarrow> Inr \<lparr>et_trade = best, expectedAmount = amountIn\<rparr>)"
  using assms
  by (simp add: estimateBuyTrade_def new_TokenAmount_def Let_def split: sum.split)

subsection \<open>executeTrade: the nonce\<close>



subsection \<open>executeTrade: the gas-pricing mode\<close>



subsection \<open>initDirectPools\<close>

text \<open>
  Claim C4, as amended. For every list of pool strings, \<^verbatim>\<open>initDirectPools\<close> handles the
  entries in order, each by its own content: an entry that does not split on \<open>-\<close> into
  two parts adds the malformed-entry warning; an entry whose base symbol, or else whose
  quote symbol, is unknown adds the warning that names that side and the symbol; an entry
  whose factory pair address is the zero address (or empty) adds the no-pool warning;
  every other entry appends its fetched pair to the pools. An entry for which the
  construction of a token, the factory's read or the fetch of the pair fails ends the
  initialization with that error: the pools and the warnings of the entries before it
  stay, and the entries after it are not handled. When no entry fails in this way the
  initialization completes and every entry is handled.
\<close>

theorem initDirectPools_entries:
  "initDirectPools env u w =
     (abort_of env u (u_poolStrings u),
      u\<lparr>u_pools := u_pools u @ concat (map kind_pools (processed env u (u_poolStrings u)))\<rparr>,
      w\<lparr>trace := trace w @
           concat (map (kind_warnings (u_chain u)) (processed env u (u_poolStrings u)))\<rparr>) \<and>
   (list_all (\<lambda>pr. \<not> aborted (entry_kind env u pr)) (u_poolStrings u) \<longrightarrow>
      fst (initDirectPools env u w) = Inr () \<and>
      processed env u (u_poolStrings u) = map (entry_kind env u) (u_poolStrings u))"
  by (simp add: initDirectPools_def initDirectPools_loop_kinds processed_all)

text \<open>
  The list \<^verbatim>\<open>["ONLYONE", "WETH-DAI"]\<close> initializes with exactly the WETH-DAI pool and the
  warning for the malformed entry; a list with one entry of each kind adds the same
  single pool and four warnings. When the factory's read for DAI and USDC is rejected,
  the list \<^verbatim>\<open>["ONLYONE", "DAI-USDC", "WETH-DAI"]\<close> ends with that rejection after the
  first warning and without a pool.
\<close>

theorem initDirectPools_entries_witness:
  "list_all (\<lambda>pr. \<not> aborted (entry_kind ex_env ex_u pr)) (u_poolStrings ex_u) \<and>
   initDirectPools ex_env ex_u ex_w =
     (Inr (), ex_u\<lparr>u_pools := [ex_pair]\<rparr>,
      ex_w\<lparr>trace :=
             [LogWarning (''The pool pair ONLYONE in your Uniswap V2 config for ethereum '' @
                          ''is malformed. It should be a string in the format '' @
                          [CHR 0x27] @ ''BASE-QUOTE'' @ [CHR 0x27] @ ''.'')]\<rparr>) \<and>
   list_all (\<lambda>pr. \<not> aborted (entry_kind ex_env ex_u_five pr)) (u_poolStrings ex_u_five) \<and>
   initDirectPools ex_env ex_u_five ex_w =
     (Inr (), ex_u_five\<lparr>u_pools := [ex_pair]\<rparr>,
      ex_w\<lparr>trace :=
             [LogWarning (''The pool pair ONLYONE in your Uniswap V2 config for ethereum '' @
                          ''is malformed. It should be a string in the format '' @
                          [CHR 0x27] @ ''BASE-QUOTE'' @ [CHR 0x27] @ ''.''),
              LogWarning (''There is an unrecognized base token in your Uniswap V2 config '' @
                          ''for ethereum: XYZ.''),
              LogWarning (''There is an unrecognized quote token in your Uniswap V2 config '' @
                          ''for ethereum: XYZ.''),
              LogWarning (''There is not a direct pool pair for DAI,USDC on ethereum '' @
                          ''for Uniswap V2.'')]\<rparr>) \<and>
   initDirectPools ex_env_down ex_u_down ex_w =
     (Inl (Rejected ''timeout''), ex_u_down\<lparr>u_pools := []\<rparr>,
      ex_w\<lparr>trace :=
             [LogWarning (''The pool pair ONLYONE in your Uniswap V2 config for ethereum '' @
                          ''is malformed. It should be a string in the format '' @
                          [CHR 0x27] @ ''BASE-QUOTE'' @ [CHR 0x27] @ ''.'')]\<rparr>)"
proof -
  have k1: "map (entry_kind ex_env ex_u) (u_poolStrings ex_u) =
            [Malformed ''ONLYONE'', Pool ex_pair]"
    by (simp add: entry_kind_def ex_defs)
  have k2: "map (entry_kind ex_env ex_u_five) (u_poolStrings ex_u_five) =
            [Malformed ''ONLYONE'', Pool ex_pair, UnknownBase ''XYZ'', UnknownQuote ''XYZ'',
             NoPool ''DAI'' ''USDC'']"
    by (simp add: entry_kind_def ex_u_five_def ex_defs)
  have k3: "map (entry_kind ex_env_down ex_u_down) (u_poolStrings ex_u_down) =
            [Malformed ''ONLYONE'', Aborted (Rejected ''timeout''), Pool ex_pair]"
    by (simp add: entry_kind_def ex_u_down_def ex_env_down_def ex_defs)
  have p1: "processed ex_env ex_u (u_poolStrings ex_u) = [Malformed ''ONLYONE'', Pool ex_pair]"
    "abort_of ex_env ex_u (u_poolStrings ex_u) = Inr ()"
    by (simp_all add: processed_def abort_of_def aborted_def k1)
  have p2: "processed ex_env ex_u_five (u_poolStrings ex_u_five) =
            [Malformed ''ONLYONE'', Pool ex_pair, UnknownBase ''XYZ'', UnknownQuote ''XYZ'',
             NoPool ''DAI'' ''USDC'']"
    "abort_of ex_env ex_u_five (u_poolStrings ex_u_five) = Inr ()"
    by (simp_all add: processed_def abort_of_def aborted_def k2)
  have p3: "processed ex_env_down ex_u_down (u_poolStrings ex_u_down) = [Malformed ''ONLYONE'']"
    "abort_of ex_env_down ex_u_down (u_poolStrings ex_u_down) = Inl (Rejected ''timeout'')"
    by (simp_all add: processed_def abort_of_def aborted_def k3)
  have a1: "list_all (\<lambda>pr. \<not> aborted (entry_kind ex_env ex_u pr)) (u_poolStrings ex_u)"
    by (simp add: aborted_def entry_kind_def ex_defs)
  have a2: "list_all (\<lambda>pr. \<not> aborted (entry_kind ex_env ex_u_five pr))
              (u_poolStrings ex_u_five)"
    by (simp add: aborted_def entry_kind_def ex_u_five_def ex_defs)
  have e1: "u_pools ex_u = []" "trace ex_w = []" "u_pools ex_u_five = []"
    "u_pools ex_u_down = []" "u_chain ex_u = ''ethereum''" "u_chain ex_u_five = ''ethereum''"
    "u_chain ex_u_down = ''ethereum''"
    by (simp_all add: ex_u_five_def ex_u_down_def ex_defs)
  show ?thesis
    using a1 a2 initDirectPools_entries [of ex_env ex_u ex_w]
      initDirectPools_entries [of ex_env ex_u_five ex_w]
      initDirectPools_entries [of ex_env_down ex_u_down ex_w]
    by (simp add: p1 p2 p3 e1 kind_pools_def kind_warnings_def)
qed

text \<open>
  Claim C4 as stated fails: with the factory's read for DAI and USDC rejected, the list
  \<^verbatim>\<open>["ONLYONE", "DAI-USDC", "WETH-DAI"]\<close> ends the initialization with that rejection
  and no pool, although its last entry alone initializes with the WETH-DAI pool.
\<close>

theorem initDirectPools_entries_counterexample:
  "u_poolStrings ex_u_down = [''ONLYONE'', ''DAI-USDC'', ''WETH-DAI''] \<and>
   fst (initDirectPools ex_env_down ex_u_down ex_w) = Inl (Rejected ''timeout'') \<and>
   u_pools (fst (snd (initDirectPools ex_env_down ex_u_down ex_w))) = [] \<and>
   initDirectPools ex_env_down (ex_u_down\<lparr>u_poolStrings := [''WETH-DAI'']\<rparr>) ex_w =
     (Inr (), ex_u_down\<lparr>u_poolStrings := [''WETH-DAI''], u_pools := [ex_pair]\<rparr>, ex_w)"
  by (simp add: ex_u_down_def ex_env_down_def run_defs ex_defs)

subsection \<open>Quotes without a trade\<close>

text \<open>
  Claim C5, as amended. For every quote request whose amount is a uint256, whose direct
  pair is fetched and for which the SDK's search over the stored pools and that pair
  returns no trade, the request fails with a \<^verbatim>\<open>UniswapishPriceError\<close> and the instance
  is as before; for \<^verbatim>\<open>estimateBuyTrade\<close> the message names the addresses of the input
  and the output token. When the amount is a uint256 and the fetch of the direct pair is
  rejected, that rejection is the outcome of the request. When the amount is not a
  uint256, the request ends with the invariant error of the SDK's \<^verbatim>\<open>TokenAmount\<close>
  before anything is logged or fetched.
\<close>

theorem estimate_no_trade:
  "(0 \<le> amount \<and> amount < 2 ^ 256 \<and> fetchPairData env baseToken quoteToken = Inr pr \<and>
    bestTradeExactIn env (u_pools u @ [pr]) \<lparr>ta_token = baseToken, ta_raw = amount\<rparr> quoteToken
      (u_maxHops u) = Inr [] \<longrightarrow>
    is_price_error (fst (estimateSellTrade env u w baseToken quoteToken amount)) \<and>
    fst (snd (estimateSellTrade env u w baseToken quoteToken amount)) = u) \<and>
   (0 \<le> amount \<and> amount < 2 ^ 256 \<and> fetchPairData env quoteToken baseToken = Inr pr' \<and>
    bestTradeExactOut env (u_pools u @ [pr']) quoteToken
      \<lparr>ta_token = baseToken, ta_raw = amount\<rparr> (u_maxHops u) = Inr [] \<longrightarrow>
    fst (estimateBuyTrade env u w quoteToken baseToken amount) =
      Inl (UniswapishPriceError
             (''priceSwapOut: no trade pair found for '' @ address quoteToken @ '' to '' @
              address baseToken @ ''.'')) \<and>
    fst (snd (estimateBuyTrade env u w quoteToken baseToken amount)) = u) \<and>
   (\<forall>e. 0 \<le> amount \<and> amount < 2 ^ 256 \<and> fetchPairData env baseToken quoteToken = Inl e \<longrightarrow>
      fst (estimateSellTrade env u w baseToken quoteToken amount) = Inl e) \<and>
   (\<forall>e. 0 \<le> amount \<and> amount < 2 ^ 256 \<and> fetchPairData env quoteToken baseToken = Inl e \<longrightarrow>
      fst (estimateBuyTrade env u w quoteToken baseToken amount) = Inl e) \<and>
   (\<not> (0 \<le> amount \<and> amount < 2 ^ 256) \<longrightarrow>
      estimateSellTrade env u w baseToken quoteToken amount = (Inl InvariantError, u, w) \<and>
      estimateBuyTrade env u w quoteToken baseToken amount = (Inl InvariantError, u, w))"
  by (simp add: estimateSellTrade_def estimateBuyTrade_def new_TokenAmount_def Let_def
      is_price_error_def)

text \<open>
  On the network whose fetched pairs are empty, the direct search finds no trade for 10
  units through the fetched WETH-DAI pair (through a pair with reserves it finds one,
  with output 9), and both quotes end in the price error; the buy message names the two
  addresses. The amounts -1 and \<open>2\<^sup>2\<^sup>5\<^sup>6\<close> end in the invariant error, with nothing logged.
\<close>

theorem estimate_no_trade_witness:
  "fetchPairData ex_env_dry ex_WETH ex_DAI = Inr ex_dry_pair \<and>
   bestTradeExactIn ex_env_dry (u_pools ex_u @ [ex_dry_pair])
     \<lparr>ta_token = ex_WETH, ta_raw = 10\<rparr> ex_DAI (u_maxHops ex_u) = Inr [] \<and>
   bestTradeExactOut ex_env_dry (u_pools ex_u @ [ex_dry_pair]) ex_WETH
     \<lparr>ta_token = ex_DAI, ta_raw = 10\<rparr> (u_maxHops ex_u) = Inr [] \<and>
   (case bestTradeExactIn ex_env_dry [ex_pair] \<lparr>ta_token = ex_WETH, ta_raw = 10\<rparr> ex_DAI 4 of
      Inl _ \<Rightarrow> []
    | Inr trades \<Rightarrow> map (\<lambda>t. ta_raw (outputAmount t)) trades) = [9] \<and>
   is_price_error (fst (estimateSellTrade ex_env_dry ex_u ex_w ex_WETH ex_DAI 10)) \<and>
   fst (estimateBuyTrade ex_env_dry ex_u ex_w ex_WETH ex_DAI 10) =
     Inl (UniswapishPriceError ''priceSwapOut: no trade pair found for 0xC02a to 0x6B17.'') \<and>
   estimateSellTrade ex_env_dry ex_u ex_w ex_WETH ex_DAI (- 1) = (Inl InvariantError, ex_u, ex_w) \<and>
   estimateBuyTrade ex_env_dry ex_u ex_w ex_WETH ex_DAI (2 ^ 256) =
     (Inl InvariantError, ex_u, ex_w)"
proof -
  have f: "fetchPairData ex_env_dry ex_WETH ex_DAI = Inr ex_dry_pair"
    by (simp add: ex_env_dry_def ex_dry_pair_def ex_defs)
  have p: "u_pools ex_u = []" "u_maxHops ex_u = 4"
    by (simp_all add: ex_defs)
  have b1: "bestTradeExactIn ex_env_dry [ex_dry_pair]
              \<lparr>ta_token = ex_WETH, ta_raw = 10\<rparr> ex_DAI 4 = Inr []"
    by (simp add: ex_env_dry_def ex_direct_in_def ex_oriented_def ex_dry_pair_def ex_defs)
  have b2: "bestTradeExactOut ex_env_dry [ex_dry_pair] ex_WETH
              \<lparr>ta_token = ex_DAI, ta_raw = 10\<rparr> 4 = Inr []"
    by (simp add: ex_env_dry_def ex_direct_out_def ex_oriented_def ex_dry_pair_def ex_defs)
  have b3: "(case bestTradeExactIn ex_env_dry [ex_pair] \<lparr>ta_token = ex_WETH, ta_raw = 10\<rparr>
                    ex_DAI 4 of
               Inl _ \<Rightarrow> []
             | Inr trades \<Rightarrow> map (\<lambda>t. ta_raw (outputAmount t)) trades) = [9]"
    by (simp add: ex_env_dry_def ex_direct_in_def ex_oriented_def ex_defs)
  have a: "address ex_WETH = ''0xC02a''" "address ex_DAI = ''0x6B17''"
    by (simp_all add: ex_defs)
  show ?thesis
    using f b1 b2 b3
      estimate_no_trade [where env = ex_env_dry and baseToken = ex_WETH and quoteToken = ex_DAI
        and amount = 10 and u = ex_u and w = ex_w and pr = ex_dry_pair]
      estimate_no_trade [where env = ex_env_dry and baseToken = ex_DAI and quoteToken = ex_WETH
        and amount = 10 and u = ex_u and w = ex_w and pr' = ex_dry_pair]
      estimate_no_trade [where env = ex_env_dry and baseToken = ex_WETH and quoteToken = ex_DAI
        and amount = "- 1" and u = ex_u and w = ex_w]
      estimate_no_trade [where env = ex_env_dry and baseToken = ex_DAI and quoteToken = ex_WETH
        and amount = "2 ^ 256" and u = ex_u and w = ex_w]
    by (simp add: a p)
qed

text \<open>
  Claim C5 as stated fails: with no stored pool, no trade found by the SDK and the direct
  pair not fetchable, \<^verbatim>\<open>estimateSellTrade\<close> ends in the rejection of the fetch, which
  is not a price error.
\<close>

theorem estimate_no_trade_counterexample:
  "u_pools ex_u = [] \<and>
   bestTradeExactIn ex_env_unfetched (u_pools ex_u) \<lparr>ta_token = ex_WETH, ta_raw = 10\<rparr> ex_DAI
     (u_maxHops ex_u) = Inr [] \<and>
   fst (estimateSellTrade ex_env_unfetched ex_u ex_w ex_WETH ex_DAI 10) =
     Inl (Rejected ''call revert exception'') \<and>
   \<not> is_price_error (fst (estimateSellTrade ex_env_unfetched ex_u ex_w ex_WETH ex_DAI 10))"
  by (simp add: estimateSellTrade_def new_TokenAmount_def is_price_error_def ex_defs)

subsection \<open>init, called again\<close>

text \<open>
  Claim C6, as amended. On an instance on which \<^verbatim>\<open>init\<close> has completed, a second
  \<^verbatim>\<open>init\<close> (against the same collaborators) completes too and leaves every field as
  it was, the token list included, except the pools: the pools that the first call
  appended are appended once more.
\<close>

theorem init_again:
  assumes "init env u0 w0 = (Inr (), u1, w1)"
  shows "fst (init env u1 w1) = Inr () \<and>
         fst (snd (init env u1 w1)) =
           u1\<lparr>u_pools := u_pools u1 @ drop (length (u_pools u0)) (u_pools u1)\<rparr>"
proof -
  from assms have ok: "\<not> (u_chain u0 = ''ethereum'' \<and> \<not> ethereum_ready env)"
    by (auto simp: init_def split: if_splits)
  obtain r0 T1 where
    it0: "init_tokens env (u_chainId u0) (storedTokenList env) (tokenList u0) = (r0, T1)"
    by (cases "init_tokens env (u_chainId u0) (storedTokenList env) (tokenList u0)") auto
  from assms ok it0 have "r0 = Inr ()"
    by (auto simp: init_def split: sum.splits)
  with it0 have
    it: "init_tokens env (u_chainId u0) (storedTokenList env) (tokenList u0) = (Inr (), T1)"
    by simp
  let ?v = "u0\<lparr>tokenList := T1\<rparr>"
  obtain r ua wa where l: "initDirectPools_loop env (u_poolStrings u0) ?v w0 = (r, ua, wa)"
    by (cases "initDirectPools_loop env (u_poolStrings u0) ?v w0") auto
  from assms ok it l have r: "r = Inr ()" and u1: "u1 = ua\<lparr>u_ready := True\<rparr>" and "w1 = wa"
    by (auto simp: init_def initDirectPools_def split: sum.splits)
  have sc: "same_config u1 ?v"
  proof -
    from loop_same_config [OF l, of ?v w0]
    obtain d where "ua = ?v\<lparr>u_pools := u_pools ?v @ d\<rparr>"
      by (auto simp: same_config_def)
    then show ?thesis using u1 by (simp add: same_config_def)
  qed
  from loop_same_config [OF l sc, of w1]
  obtain d w2' where ua: "ua = ?v\<lparr>u_pools := u_pools ?v @ d\<rparr>"
    and l2: "initDirectPools_loop env (u_poolStrings u0) u1 w1 =
             (r, u1\<lparr>u_pools := u_pools u1 @ d\<rparr>, w2')"
    by blast
  have fields: "u_chain u1 = u_chain u0" "u_chainId u1 = u_chainId u0"
    "u_poolStrings u1 = u_poolStrings u0" "tokenList u1 = T1"
    "u_ready u1" "u_pools u1 = u_pools u0 @ d"
    using u1 ua by simp_all
  have again: "init_tokens env (u_chainId u1) (storedTokenList env) (tokenList u1) = (Inr (), T1)"
    using init_tokens_idem [OF it] fields by simp
  have same: "u1\<lparr>tokenList := T1\<rparr> = u1"
    using fields(4) [symmetric] by simp
  have "init env u1 w1 = (Inr (), u1\<lparr>u_pools := u_pools u1 @ d, u_ready := True\<rparr>, w2')"
    unfolding init_def again using ok fields(1,3) l2 r by (simp add: initDirectPools_def same)
  moreover have "u1\<lparr>u_pools := u_pools u1 @ d, u_ready := True\<rparr> = u1\<lparr>u_pools := u_pools u1 @ d\<rparr>"
    using fields(5) by (cases u1) simp
  moreover have "drop (length (u_pools u0)) (u_pools u1) = d" using fields(6) by simp
  ultimately show ?thesis by simp
qed

text \<open>After the list \<^verbatim>\<open>["ONLYONE", "WETH-DAI"]\<close> the second call gives the first call's
  instance with the WETH-DAI pool twice.\<close>

theorem init_again_witness:
  "init ex_env ex_u ex_w = (Inr (), ex_u1, ex_w1) \<and>
   fst (init ex_env ex_u1 ex_w1) = Inr () \<and>
   fst (snd (init ex_env ex_u1 ex_w1)) = ex_u1\<lparr>u_pools := [ex_pair, ex_pair]\<rparr>"
proof -
  have "fst (init ex_env ex_u ex_w) = Inr ()"
    by (simp add: run_defs ex_defs)
  then have h: "init ex_env ex_u ex_w = (Inr (), ex_u1, ex_w1)"
    by (cases "init ex_env ex_u ex_w") (simp add: ex_u1_def ex_w1_def)
  have p: "u_pools ex_u1 = [ex_pair]" "u_pools ex_u = []"
    by (simp_all add: ex_u1_def run_defs ex_defs)
  show ?thesis using h init_again [OF h] by (simp add: p)
qed

text \<open>
  Claim C6 as stated fails: the first \<^verbatim>\<open>init\<close> completes and leaves the instance ready
  with one pool; after the second the pool list has two entries.
\<close>

theorem init_again_counterexample:
  "fst (init ex_env ex_u ex_w) = Inr () \<and> u_ready ex_u1 \<and> u_pools ex_u1 = [ex_pair] \<and>
   u_pools (fst (snd (init ex_env ex_u1 ex_w1))) = [ex_pair, ex_pair] \<and>
   u_pools (fst (snd (init ex_env ex_u1 ex_w1))) \<noteq> u_pools ex_u1"
  by (simp add: ex_u1_def ex_w1_def run_defs ex_defs)

subsection \<open>Quotes leave the instance alone\<close>

text \<open>
  Claim C8. Every call of \<^verbatim>\<open>estimateSellTrade\<close> or \<^verbatim>\<open>estimateBuyTrade\<close>, whatever
  its outcome (a trade, a price error or any other failure), returns the instance as it
  was: the stored pools and the token list are unchanged, the fetched pair being joined
  to the stored pools only in the list handed to the search.
\<close>

theorem estimate_frame:
  "fst (snd (estimateSellTrade env u w baseToken quoteToken amount)) = u \<and>
   fst (snd (estimateBuyTrade env u w quoteToken baseToken amount)) = u \<and>
   u_pools (fst (snd (estimateSellTrade env u w baseToken quoteToken amount))) = u_pools u \<and>
   tokenList (fst (snd (estimateSellTrade env u w baseToken quoteToken amount))) = tokenList u \<and>
   u_pools (fst (snd (estimateBuyTrade env u w quoteToken baseToken amount))) = u_pools u \<and>
   tokenList (fst (snd (estimateBuyTrade env u w quoteToken baseToken amount))) = tokenList u"
  by (simp add: estimateSellTrade_def estimateBuyTrade_def Let_def
      split: sum.split list.split)

text \<open>A quote that ends in a price error on the initialized instance keeps its one pool.\<close>

theorem estimate_frame_witness:
  "is_price_error (fst (estimateBuyTrade ex_env ex_u1 ex_w1 ex_WETH ex_DAI 10)) \<and>
   u_pools (fst (snd (estimateBuyTrade ex_env ex_u1 ex_w1 ex_WETH ex_DAI 10))) = [ex_pair]"
proof -
  have p: "u_pools ex_u1 = [ex_pair]"
    by (simp add: ex_u1_def run_defs ex_defs)
  have e: "is_price_error (fst (estimateBuyTrade ex_env ex_u1 ex_w1 ex_WETH ex_DAI 10))"
    by (simp add: estimateBuyTrade_def new_TokenAmount_def is_price_error_def ex_env_def)
  show ?thesis
    using e estimate_frame [of ex_env ex_u1 ex_w1 ex_DAI ex_WETH 10]
    by (simp add: p)
qed

subsection \<open>getTradeRoute\<close>

text \<open>
  Claim C9, as amended. \<^verbatim>\<open>getTradeRoute\<close> returns the empty list for a route without
  a path; for a route whose path is \<open>t\<^sub>1, \<dots>, t\<^sub>n\<close> it returns, in route order, one
  descriptor \<^verbatim>\<open>SYMBOL-SYMBOL\<close> for each two consecutive tokens among those that have a
  symbol, a token without a symbol being passed over. When every token of the path has a
  symbol these are the \<open>n - 1\<close> descriptors of the consecutive pairs of the path.
\<close>

theorem getTradeRoute_hops:
  "getTradeRoute tr =
     (case route_path (trade_route tr) of
        None \<Rightarrow> []
      | Some toks \<Rightarrow> hop_descriptors (List.map_filter symbol toks)) \<and>
   (\<forall>toks. route_path (trade_route tr) = Some toks \<and> (\<forall>t \<in> set toks. symbol t \<noteq> None) \<longrightarrow>
      length (getTradeRoute tr) = length toks - 1 \<and>
      (\<forall>i < length toks - 1.
         getTradeRoute tr ! i =
           the (symbol (toks ! i)) @ ''-'' @ the (symbol (toks ! Suc i))))"
  by (auto simp: getTradeRoute_def getTradeRoute_loop_hops map_filter_all_defined
      hop_descriptors_length hop_descriptors_nth split: option.split)

text \<open>The route WETH, USDC, DAI has the two descriptors of its two hops.\<close>

theorem getTradeRoute_hops_witness:
  "route_path (trade_route (ex_trade_via ex_USDC)) = Some [ex_WETH, ex_USDC, ex_DAI] \<and>
   list_all (\<lambda>t. symbol t \<noteq> None) [ex_WETH, ex_USDC, ex_DAI] \<and>
   getTradeRoute (ex_trade_via ex_USDC) = [''WETH-USDC'', ''USDC-DAI''] \<and>
   length (getTradeRoute (ex_trade_via ex_USDC)) = 2"
proof -
  have r: "route_path (trade_route (ex_trade_via ex_USDC)) = Some [ex_WETH, ex_USDC, ex_DAI]"
    by (simp add: ex_trade_via_def)
  have s: "symbol ex_WETH = Some ''WETH''" "symbol ex_USDC = Some ''USDC''"
    "symbol ex_DAI = Some ''DAI''"
    by (simp_all add: ex_defs)
  show ?thesis
    using r getTradeRoute_hops [of "ex_trade_via ex_USDC"]
    by (simp add: s hop_descriptors_simps)
qed

text \<open>
  Claim C9 as stated fails: the route WETH, a token without a symbol, DAI has three
  tokens and one descriptor, which is not the descriptor of either of its two hops.
\<close>

theorem getTradeRoute_hops_counterexample:
  "route_path (trade_route (ex_trade_via ex_NOSYM)) = Some [ex_WETH, ex_NOSYM, ex_DAI] \<and>
   getTradeRoute (ex_trade_via ex_NOSYM) = [''WETH-DAI''] \<and>
   length (getTradeRoute (ex_trade_via ex_NOSYM)) \<noteq> length [ex_WETH, ex_NOSYM, ex_DAI] - 1"
  by (simp add: getTradeRoute_def ex_defs)

subsection \<open>getInstance\<close>

text \<open>
  Claim C10. In any history of calls of \<^verbatim>\<open>getInstance\<close> that starts with the registry
  undefined, two calls return the same object if and only if the concatenation of chain
  and network is the same string in both; so \<^verbatim>\<open>("ab", "c")\<close> and \<^verbatim>\<open>("a", "bc")\<close>
  share one instance, and a repeated pair gets the instance created for it first.
\<close>

theorem getInstance_same_object:
  assumes "getInstance_calls cfg calls registry0 = (objs, reg)"
    and "i < length calls" and "j < length calls"
  shows "objs ! i = objs ! j \<longleftrightarrow>
         fst (calls ! i) @ snd (calls ! i) = fst (calls ! j) @ snd (calls ! j)"
proof -
  from getInstance_calls_lookup [OF registry_inv0 assms(1)]
  have inv: "registry_inv reg"
    and l: "\<And>i. i < length calls \<Longrightarrow>
              lookup reg (fst (calls ! i) @ snd (calls ! i)) = Some (objs ! i)"
    by blast+
  show ?thesis
  proof
    assume "objs ! i = objs ! j"
    with l [OF assms(2)] l [OF assms(3)] inv
    show "fst (calls ! i) @ snd (calls ! i) = fst (calls ! j) @ snd (calls ! j)"
      unfolding registry_inv_def by metis
  next
    assume "fst (calls ! i) @ snd (calls ! i) = fst (calls ! j) @ snd (calls ! j)"
    with l [OF assms(2)] l [OF assms(3)] show "objs ! i = objs ! j" by simp
  qed
qed

text \<open>The calls \<^verbatim>\<open>("ab", "c")\<close>, \<^verbatim>\<open>("a", "bc")\<close>, \<^verbatim>\<open>("ab", "d")\<close>: the first two
  return one object, the third another.\<close>

theorem getInstance_same_object_witness:
  "fst (getInstance_calls ex_cfg ex_calls registry0) ! 0 =
     fst (getInstance_calls ex_cfg ex_calls registry0) ! 1 \<and>
   fst (getInstance_calls ex_cfg ex_calls registry0) ! 0 \<noteq>
     fst (getInstance_calls ex_cfg ex_calls registry0) ! 2"
proof -
  have eq: "getInstance_calls ex_cfg ex_calls registry0 =
              (fst (getInstance_calls ex_cfg ex_calls registry0),
               snd (getInstance_calls ex_cfg ex_calls registry0))"
    by simp
  have n: "(0::nat) < length ex_calls" "(1::nat) < length ex_calls" "(2::nat) < length ex_calls"
    by (simp_all add: ex_calls_def)
  show ?thesis
    using getInstance_same_object [OF eq n(1) n(2)] getInstance_same_object [OF eq n(1) n(3)]
    by (simp add: ex_calls_def)
qed

end
